theory Spec2Isabelle
  imports Complex_Main "HOL-Library.Multiset"
begin

section \<open>The prediction engine of \<open>predictor/ml_utils.py\<close>\<close>

text \<open>
  A shallow embedding of \<open>PropertyPricePredictor\<close>. Python floats and ints are read as
  real numbers (exact arithmetic), dicts as maps, raised exceptions as the left summand of
  a sum type. The fitted scikit-learn objects are not part of the repository: an estimator
  is a function from the one-row frame to its prediction, a label encoder is its list
  \<open>classes_\<close>.
\<close>

subsection \<open>Values and exceptions\<close>

datatype pyval = Num real | Str string | NoneV

datatype py_error =
    ZeroDivisionError
  | TypeError
  | KeyError string
  | ValueError string

fun exn_class :: "py_error \<Rightarrow> string" where
  "exn_class ZeroDivisionError = ''ZeroDivisionError''"
| "exn_class TypeError = ''TypeError''"
| "exn_class (KeyError k) = ''KeyError''"
| "exn_class (ValueError m) = ''ValueError''"

text \<open>\<open>a / b\<close> and \<open>a + b\<close> on Python values.\<close>

fun py_truediv :: "pyval \<Rightarrow> pyval \<Rightarrow> py_error + pyval" where
  "py_truediv (Num x) (Num y) = (if y = 0 then Inl ZeroDivisionError else Inr (Num (x / y)))"
| "py_truediv a b = Inl TypeError"

fun py_add :: "pyval \<Rightarrow> pyval \<Rightarrow> py_error + pyval" where
  "py_add (Num x) (Num y) = Inr (Num (x + y))"
| "py_add (Str s) (Str t) = Inr (Str (s @ t))"
| "py_add a b = Inl TypeError"

text \<open>\<open>d[k]\<close> and \<open>d.get(k, default)\<close> on a dict.\<close>

definition getitem :: "(string \<rightharpoonup> 'v) \<Rightarrow> string \<Rightarrow> py_error + 'v" where
  "getitem d k = (case d k of None \<Rightarrow> Inl (KeyError k) | Some v \<Rightarrow> Inr v)"

definition dict_get :: "('k \<rightharpoonup> 'v) \<Rightarrow> 'k \<Rightarrow> 'v \<Rightarrow> 'v" where
  "dict_get d k dflt = (case d k of None \<Rightarrow> dflt | Some v \<Rightarrow> v)"

subsection \<open>The request\<close>

text \<open>
  \<open>property_data\<close> is a dict with four required keys and two optional ones; the required
  keys are taken to be present with values of the types the docstring of \<open>prepare_input\<close>
  gives. An optional key can be absent, present with the value \<open>None\<close> (what \<open>views.py\<close>
  sends for an omitted size), or present with a number.
\<close>

datatype size_arg = Absent | Null | Given real

record property_data =
  property_type :: string
  location :: string
  bedrooms :: int
  bathrooms :: int
  house_size :: size_arg
  land_size :: size_arg

text \<open>\<open>property_data.get(key, default)\<close> for an optional size.\<close>

fun get_size :: "size_arg \<Rightarrow> pyval \<Rightarrow> pyval" where
  "get_size Absent dflt = dflt"
| "get_size Null dflt = NoneV"
| "get_size (Given x) dflt = Num x"

subsection \<open>The loaded artifacts\<close>

text \<open>
  What \<open>load_models\<close> reads from the five files. A key that the source reads with \<open>[...]\<close>
  (\<open>models['rf']\<close>, \<open>stats['median_values']\<close>, \<open>stats['metrics']\<close>) is a record field; a
  key that it reads with \<open>.get(key, {})\<close> (\<open>location_premium\<close>, \<open>property_premium\<close>) may be
  missing. A forest is its \<open>predict\<close>, the \<open>predict\<close> of each tree in \<open>estimators_\<close> and its
  \<open>feature_importances_\<close>; every prediction is the one for the single row of the frame.
\<close>

type_synonym frame_row = "pyval list"

record forest =
  rf_predict :: "frame_row \<Rightarrow> real"
  estimators :: "(frame_row \<Rightarrow> real) list"
  feature_importances :: "real list"

record model_dict =
  scaler :: "frame_row \<Rightarrow> frame_row"
  rf :: forest
  gb :: "frame_row \<Rightarrow> real"
  ridge :: "frame_row \<Rightarrow> real"

record label_encoder =
  classes :: "string list"

record stats_dict =
  median_values :: "string \<rightharpoonup> real"
  location_premium :: "(string \<rightharpoonup> real) option"
  property_premium :: "(string \<rightharpoonup> real) option"
  metrics :: "(string \<times> real) list"

record predictor =
  models :: model_dict
  le_property :: label_encoder
  le_location :: label_encoder
  feature_names :: "string list"
  stats :: stats_dict

record prediction_result =
  predicted_price :: real
  confidence_score :: real
  price_range_min :: real
  price_range_max :: real
  feature_importance :: "(string \<times> real) list"
  model_metrics :: "(string \<times> real) list"

subsection \<open>\<open>engineer_features\<close>\<close>

text \<open>
  The dict comprehension \<open>{c: stats.get(key, {}).get(c, 0) for c in le.classes_}\<close> and the
  lookup \<open>premiums.get(data[...], 0)\<close> in it. Its keys are strings, so a value that is not a
  string finds nothing.
\<close>

definition premium_table :: "label_encoder \<Rightarrow> (string \<rightharpoonup> real) option \<Rightarrow> (string \<rightharpoonup> real)" where
  "premium_table le prem =
     (\<lambda>c. if c \<in> set (classes le)
          then Some (dict_get (case prem of None \<Rightarrow> Map.empty | Some m \<Rightarrow> m) c 0)
          else None)"

fun premium_of :: "(string \<rightharpoonup> real) \<Rightarrow> pyval \<Rightarrow> real" where
  "premium_of tbl (Str s) = dict_get tbl s 0"
| "premium_of tbl v = 0"

definition engineer_features :: "predictor \<Rightarrow> (string \<rightharpoonup> pyval) \<Rightarrow> py_error + (string \<rightharpoonup> pyval)" where
  "engineer_features self data =
     (case getitem data ''bathroom'' of Inl e \<Rightarrow> Inl e | Inr ba \<Rightarrow>
     (case getitem data ''Bedroom'' of Inl e \<Rightarrow> Inl e | Inr be \<Rightarrow>
     (case py_truediv ba be of Inl e \<Rightarrow> Inl e | Inr ratio \<Rightarrow>
     (let data1 = data(''bath_bed_ratio'' \<mapsto> ratio) in
     (case py_add (dict_get data1 ''House size'' (Num 0)) (dict_get data1 ''Land size'' (Num 0)) of
        Inl e \<Rightarrow> Inl e
      | Inr area \<Rightarrow>
     (let data2 = data1(''total_area'' \<mapsto> area);
          location_premiums = premium_table (le_location self) (location_premium (stats self));
          property_premiums = premium_table (le_property self) (property_premium (stats self))
      in
     (case getitem data2 ''Location'' of Inl e \<Rightarrow> Inl e | Inr loc \<Rightarrow>
     (let data3 = data2(''location_premium'' \<mapsto> Num (premium_of location_premiums loc)) in
     (case getitem data3 ''propertyType'' of Inl e \<Rightarrow> Inl e | Inr pt \<Rightarrow>
      Inr (data3(''property_premium'' \<mapsto> Num (premium_of property_premiums pt))))))))))))"

subsection \<open>\<open>prepare_input\<close>\<close>

text \<open>
  The dict literal that maps the request to the feature format. Both medians are read
  with \<open>[...]\<close> before \<open>.get\<close> is called, whether or not the request has the key.
\<close>

definition map_input :: "predictor \<Rightarrow> property_data \<Rightarrow> py_error + (string \<rightharpoonup> pyval)" where
  "map_input self pd =
     (case getitem (median_values (stats self)) ''House size'' of Inl e \<Rightarrow> Inl e | Inr mh \<Rightarrow>
     (case getitem (median_values (stats self)) ''Land size'' of Inl e \<Rightarrow> Inl e | Inr ml \<Rightarrow>
      Inr (Map.empty
            (''propertyType'' \<mapsto> Str (property_type pd),
             ''Location'' \<mapsto> Str (location pd),
             ''Bedroom'' \<mapsto> Num (of_int (bedrooms pd)),
             ''bathroom'' \<mapsto> Num (of_int (bathrooms pd)),
             ''House size'' \<mapsto> get_size (house_size pd) (Num mh),
             ''Land size'' \<mapsto> get_size (land_size pd) (Num ml)))))"

text \<open>
  \<open>le.transform([v])[0]\<close>: the position of the label in \<open>classes_\<close>, and the library's
  \<open>ValueError\<close> for a label that is not there (its message is shortened to a fixed text).
\<close>

fun index_of :: "string \<Rightarrow> string list \<Rightarrow> nat option" where
  "index_of s [] = None"
| "index_of s (c # cs) =
     (if c = s then Some 0 else (case index_of s cs of None \<Rightarrow> None | Some i \<Rightarrow> Some (Suc i)))"

definition unseen_labels :: string where
  "unseen_labels = ''y contains previously unseen labels''"

fun le_transform :: "label_encoder \<Rightarrow> pyval \<Rightarrow> py_error + pyval" where
  "le_transform le (Str s) =
     (case index_of s (classes le) of
        None \<Rightarrow> Inl (ValueError unseen_labels)
      | Some i \<Rightarrow> Inr (Num (of_nat i)))"
| "le_transform le v = Inl (ValueError unseen_labels)"

text \<open>The \<open>try\<close> block of \<open>prepare_input\<close>: only a \<open>ValueError\<close> is caught and raised anew.\<close>

definition reraise_invalid :: "py_error \<Rightarrow> py_error" where
  "reraise_invalid e =
     (case e of ValueError m \<Rightarrow> ValueError (''Invalid property type or location: '' @ m)
      | _ \<Rightarrow> e)"

definition encode_categoricals ::
    "predictor \<Rightarrow> (string \<rightharpoonup> pyval) \<Rightarrow> py_error + (string \<rightharpoonup> pyval)" where
  "encode_categoricals self data =
     (case getitem data ''propertyType'' of Inl e \<Rightarrow> Inl (reraise_invalid e) | Inr pt \<Rightarrow>
     (case le_transform (le_property self) pt of Inl e \<Rightarrow> Inl (reraise_invalid e) | Inr pc \<Rightarrow>
     (case getitem data ''Location'' of Inl e \<Rightarrow> Inl (reraise_invalid e) | Inr loc \<Rightarrow>
     (case le_transform (le_location self) loc of Inl e \<Rightarrow> Inl (reraise_invalid e) | Inr lc \<Rightarrow>
      Inr (data(''propertyType'' \<mapsto> pc, ''Location'' \<mapsto> lc))))))"

text \<open>\<open>df[self.feature_names]\<close>; the \<open>KeyError\<close> names the first column that is missing.\<close>

fun select_columns :: "(string \<rightharpoonup> pyval) \<Rightarrow> string list \<Rightarrow> py_error + frame_row" where
  "select_columns df [] = Inr []"
| "select_columns df (n # ns) =
     (case df n of
        None \<Rightarrow> Inl (KeyError n)
      | Some v \<Rightarrow> (case select_columns df ns of Inl e \<Rightarrow> Inl e | Inr vs \<Rightarrow> Inr (v # vs)))"

text \<open>The first two steps of \<open>prepare_input\<close>: the dict literal, then \<open>engineer_features\<close>.\<close>

definition engineered_input :: "predictor \<Rightarrow> property_data \<Rightarrow> py_error + (string \<rightharpoonup> pyval)" where
  "engineered_input self pd =
     (case map_input self pd of Inl e \<Rightarrow> Inl e | Inr data \<Rightarrow> engineer_features self data)"

definition prepare_input :: "predictor \<Rightarrow> property_data \<Rightarrow> py_error + frame_row" where
  "prepare_input self pd =
     (case engineered_input self pd of Inl e \<Rightarrow> Inl e | Inr data \<Rightarrow>
     (case encode_categoricals self data of Inl e \<Rightarrow> Inl e | Inr df \<Rightarrow>
      select_columns df (feature_names self)))"

subsection \<open>\<open>ensemble_predict\<close> and \<open>predict_with_confidence\<close>\<close>

definition ensemble_predict :: "predictor \<Rightarrow> frame_row \<Rightarrow> real" where
  "ensemble_predict self X =
     (let X_scaled = scaler (models self) X;
          rf_pred = rf_predict (rf (models self)) X;
          gb_pred = gb (models self) X;
          ridge_pred = ridge (models self) X_scaled
      in 0.5 * rf_pred + 0.3 * gb_pred + 0.2 * ridge_pred)"

text \<open>
  \<open>np.mean\<close> and \<open>np.std\<close> (population standard deviation) of a non-empty array. For an
  empty array numpy gives \<open>nan\<close>; the theorems below that depend on it assume a forest
  with at least one tree.
\<close>

definition np_mean :: "real list \<Rightarrow> real" where
  "np_mean xs = sum_list xs / real (length xs)"

definition np_std :: "real list \<Rightarrow> real" where
  "np_std xs = sqrt (np_mean (map (\<lambda>x. \<bar>x - np_mean xs\<bar>\<^sup>2) xs))"

text \<open>A dict built from pairs: a repeated key keeps its first position and takes the last value.\<close>

fun dict_set :: "(string \<times> 'v) list \<Rightarrow> string \<Rightarrow> 'v \<Rightarrow> (string \<times> 'v) list" where
  "dict_set [] k v = [(k, v)]"
| "dict_set ((k', v') # d) k v =
     (if k' = k then (k, v) # d else (k', v') # dict_set d k v)"

definition dict_of_items :: "(string \<times> 'v) list \<Rightarrow> (string \<times> 'v) list" where
  "dict_of_items items = foldl (\<lambda>d (k, v). dict_set d k v) [] items"

definition predict_with_confidence :: "predictor \<Rightarrow> property_data \<Rightarrow> py_error + prediction_result" where
  "predict_with_confidence self pd =
     (case prepare_input self pd of Inl e \<Rightarrow> Inl e | Inr X \<Rightarrow>
     (let predicted = ensemble_predict self X;
          rf_pred = rf_predict (rf (models self)) X;
          gb_pred = gb (models self) X;
          predictions = [rf_pred, gb_pred, predicted];
          std_dev = np_std predictions;
          mean_pred = np_mean predictions;
          cv = (if mean_pred > 0 then std_dev / mean_pred else 1);
          confidence = max 0 (min 1 (1 - cv));
          tree_predictions = map (\<lambda>tree. tree X) (estimators (rf (models self)));
          std_error = np_std tree_predictions;
          margin = 1.96 * std_error;
          range_min = max 0 (predicted - margin);
          range_max = predicted + margin;
          importance = dict_of_items
            (zip (feature_names self) (feature_importances (rf (models self))))
      in Inr \<lparr> predicted_price = predicted,
               confidence_score = confidence,
               price_range_min = range_min,
               price_range_max = range_max,
               feature_importance = importance,
               model_metrics = metrics (stats self) \<rparr>))"

subsection \<open>\<open>explain_prediction\<close>\<close>

text \<open>The decimal text of an int (\<open>f"{n}"\<close>) and of a float under \<open>:.0f\<close> (nearest integer, a tie goes to the even one; the sign stays on a negative value that rounds to zero).\<close>

fun str_nat :: "nat \<Rightarrow> string" where
  "str_nat n =
     (if n < 10 then [''0123456789'' ! n] else str_nat (n div 10) @ [''0123456789'' ! (n mod 10)])"

declare str_nat.simps [simp del]

definition str_int :: "int \<Rightarrow> string" where
  "str_int i = (if i < 0 then ''-'' @ str_nat (nat (- i)) else str_nat (nat i))"

definition round_half_even :: "real \<Rightarrow> int" where
  "round_half_even x =
     (let f = \<lfloor>x\<rfloor>; d = x - of_int f
      in if d < 1 / 2 then f else if 1 / 2 < d then f + 1 else if even f then f else f + 1)"

definition fmt_0f :: "real \<Rightarrow> string" where
  "fmt_0f x =
     (if x < 0 then ''-'' @ str_nat (nat (round_half_even (- x)))
      else str_nat (nat (round_half_even x)))"

fun join :: "string \<Rightarrow> string list \<Rightarrow> string" where
  "join sep [] = []"
| "join sep [x] = x"
| "join sep (x # y # ys) = x @ sep @ join sep (y # ys)"

text \<open>
  \<open>sorted(items, key=lambda x: x[1], reverse=True)\<close>: a stable sort by descending weight
  (with \<open>reverse=True\<close> items of equal weight keep their original order). The library's
  algorithm is replaced by insertion from the right; \<open>sorted_desc_perm\<close>,
  \<open>sorted_desc_sorted\<close> and \<open>sorted_desc_stable\<close> below fix the result whatever the algorithm.
\<close>

fun insert_desc :: "('a \<times> real) \<Rightarrow> ('a \<times> real) list \<Rightarrow> ('a \<times> real) list" where
  "insert_desc x [] = [x]"
| "insert_desc x (y # ys) = (if snd y \<le> snd x then x # y # ys else y # insert_desc x ys)"

definition sorted_desc :: "('a \<times> real) list \<Rightarrow> ('a \<times> real) list" where
  "sorted_desc items = foldr insert_desc items []"

text \<open>
  The size sentence is guarded by the truth value of \<open>property_data.get('house_size')\<close>:
  false for an absent key, for \<open>None\<close> and for zero. The two characters after \<open>m\<close> are the
  code points U+00C2 and U+00B2 of the source text.
\<close>

definition size_sentences :: "size_arg \<Rightarrow> string list" where
  "size_sentences hs =
     (case hs of
        Given x \<Rightarrow>
          if x \<noteq> 0
          then [''House Size: '' @ fmt_0f x @ '' m'' @ [CHR 0xC2, CHR 0xB2]
                  @ '' contributes to overall value'']
          else []
      | _ \<Rightarrow> [])"

definition top_features :: "prediction_result \<Rightarrow> (string \<times> real) list" where
  "top_features res = take 3 (sorted_desc (feature_importance res))"

definition explain_prediction :: "property_data \<Rightarrow> prediction_result \<Rightarrow> string list" where
  "explain_prediction pd res =
     [''Location ('' @ location pd @ ''): Premium area with high property values'']
     @ [''Property Type ('' @ property_type pd @ ''): Influences base price significantly'']
     @ size_sentences (house_size pd)
     @ [''Rooms: '' @ str_int (bedrooms pd) @ '' bedrooms and ''
          @ str_int (bathrooms pd) @ '' bathrooms affect pricing'']
     @ [''Key factors: '' @ join '', '' (map fst (top_features res))]"

subsection \<open>The request built by \<open>PredictionViewSet.predict\<close>\<close>

text \<open>
  The view copies the validated fields into a new dict and reads both sizes with
  \<open>validated_data.get(...)\<close>, so both keys are always present: an omitted size arrives as
  \<open>None\<close>. \<open>batch_predict\<close> builds the same dict for each of its items.
\<close>

definition view_property_data :: "property_data \<Rightarrow> property_data" where
  "view_property_data validated_data =
     \<lparr> property_type = property_type validated_data,
       location = location validated_data,
       bedrooms = bedrooms validated_data,
       bathrooms = bathrooms validated_data,
       house_size = (case get_size (house_size validated_data) NoneV of Num x \<Rightarrow> Given x | _ \<Rightarrow> Null),
       land_size = (case get_size (land_size validated_data) NoneV of Num x \<Rightarrow> Given x | _ \<Rightarrow> Null) \<rparr>"

subsection \<open>A small model bank and some requests\<close>

definition stub_forest :: forest where
  "stub_forest =
     \<lparr> rf_predict = (\<lambda>X. 20000000),
       estimators = [\<lambda>X. 19000000, \<lambda>X. 21000000],
       feature_importances = [0.05, 0.3, 0.1, 0.05, 0.3, 0.1, 0.02, 0.05, 0.02, 0.01] \<rparr>"

definition stub_models :: model_dict where
  "stub_models =
     \<lparr> scaler = (\<lambda>X. X), rf = stub_forest, gb = (\<lambda>X. 21000000), ridge = (\<lambda>X. 19000000) \<rparr>"

definition stub_stats :: stats_dict where
  "stub_stats =
     \<lparr> median_values = [''House size'' \<mapsto> 120, ''Land size'' \<mapsto> 500],
       location_premium = Some [''Kilimani'' \<mapsto> 1.5, ''Karen'' \<mapsto> 2],
       property_premium = None,
       metrics = [(''r2'', 0.9)] \<rparr>"

definition stub_feature_names :: "string list" where
  "stub_feature_names =
     [''propertyType'', ''Location'', ''Bedroom'', ''bathroom'', ''House size'', ''Land size'',
      ''bath_bed_ratio'', ''total_area'', ''location_premium'', ''property_premium'']"

definition stub_predictor :: predictor where
  "stub_predictor =
     \<lparr> models = stub_models,
       le_property = \<lparr> classes = [''Apartment'', ''Townhouse'', ''Vacant Land''] \<rparr>,
       le_location = \<lparr> classes = [''Karen'', ''Kilimani'', ''Westlands''] \<rparr>,
       feature_names = stub_feature_names,
       stats = stub_stats \<rparr>"

definition kilimani_request :: property_data where
  "kilimani_request =
     \<lparr> property_type = ''Apartment'', location = ''Kilimani'', bedrooms = 3, bathrooms = 2,
       house_size = Given 150, land_size = Given 0 \<rparr>"

definition kilimani_row :: frame_row where
  "kilimani_row =
     [Num 0, Num 1, Num 3, Num 2, Num 150, Num 0, Num (2 / 3), Num 150, Num 1.5, Num 0]"

definition negative_ridge_predictor :: predictor where
  "negative_ridge_predictor =
     stub_predictor \<lparr> models := stub_models \<lparr> ridge := (\<lambda>X. - 100000000) \<rparr> \<rparr>"

definition unknown_location_request :: property_data where
  "unknown_location_request = kilimani_request \<lparr> location := ''Nowhere'' \<rparr>"

definition zero_bedroom_request :: property_data where
  "zero_bedroom_request = kilimani_request \<lparr> bedrooms := 0 \<rparr>"

definition no_house_size_request :: property_data where
  "no_house_size_request = kilimani_request \<lparr> house_size := Absent \<rparr>"

definition null_house_size_request :: property_data where
  "null_house_size_request = kilimani_request \<lparr> house_size := Null \<rparr>"

text \<open>A result as the stub model bank gives it, for \<open>explain_prediction\<close>.\<close>

definition sample_result :: prediction_result where
  "sample_result =
     \<lparr> predicted_price = 20100000, confidence_score = 0.9,
       price_range_min = 18140000, price_range_max = 22060000,
       feature_importance = zip stub_feature_names (feature_importances stub_forest),
       model_metrics = [(''r2'', 0.9)] \<rparr>"

text \<open>A dict for \<open>engineer_features\<close> that has no \<open>House size\<close> key.\<close>

definition land_only_data :: "string \<rightharpoonup> pyval" where
  "land_only_data =
     [''propertyType'' \<mapsto> Str ''Vacant Land'', ''Location'' \<mapsto> Str ''Karen'',
      ''Bedroom'' \<mapsto> Num 1, ''bathroom'' \<mapsto> Num 1, ''Land size'' \<mapsto> Num 40]"

subsection \<open>The specification's formulas\<close>

text \<open>
  The agreement confidence in the words of section 4.4 of the specification: population
  standard deviation and mean of the three candidates, \<open>cv = std / mean\<close>, \<open>cv = 1\<close> for a
  mean that is not positive, and \<open>1 - cv\<close> clamped to the unit interval.
\<close>

definition spec_confidence :: "real \<Rightarrow> real \<Rightarrow> real \<Rightarrow> real" where
  "spec_confidence a b c =
     (let mean = (a + b + c) / 3;
          std = sqrt (((a - mean)\<^sup>2 + (b - mean)\<^sup>2 + (c - mean)\<^sup>2) / 3);
          cv = (if mean \<le> 0 then 1 else std / mean)
      in if 1 - cv < 0 then 0 else if 1 < 1 - cv then 1 else 1 - cv)"

text \<open>
  The total area in the words of section 4.1 of the specification: the sum of the two
  sizes of the request, a missing one counting as 0.
\<close>

fun size_or_zero :: "size_arg \<Rightarrow> real" where
  "size_or_zero (Given x) = x"
| "size_or_zero s = 0"

definition spec_total_area :: "property_data \<Rightarrow> real" where
  "spec_total_area pd = size_or_zero (house_size pd) + size_or_zero (land_size pd)"

section \<open>Properties\<close>

subsection \<open>Auxiliary facts\<close>

lemma predict_with_confidence_Inl:
  "prepare_input self pd = Inl e \<Longrightarrow> predict_with_confidence self pd = Inl e"
  by (simp add: predict_with_confidence_def)

lemma predict_with_confidence_Inr:
  assumes "prepare_input self pd = Inr X"
  shows "predict_with_confidence self pd =
     Inr \<lparr> predicted_price = ensemble_predict self X,
           confidence_score = max 0 (min 1 (1 -
             (if 0 < np_mean [rf_predict (rf (models self)) X, gb (models self) X, ensemble_predict self X]
              then np_std [rf_predict (rf (models self)) X, gb (models self) X, ensemble_predict self X]
                   / np_mean [rf_predict (rf (models self)) X, gb (models self) X, ensemble_predict self X]
              else 1))),
           price_range_min = max 0 (ensemble_predict self X
              - 1.96 * np_std (map (\<lambda>tree. tree X) (estimators (rf (models self))))),
           price_range_max = ensemble_predict self X
              + 1.96 * np_std (map (\<lambda>tree. tree X) (estimators (rf (models self)))),
           feature_importance = dict_of_items
              (zip (feature_names self) (feature_importances (rf (models self)))),
           model_metrics = metrics (stats self) \<rparr>"
  using assms by (simp add: predict_with_confidence_def Let_def)

lemma np_std_nonneg: "0 \<le> np_std xs"
  unfolding np_std_def np_mean_def
  by (intro real_sqrt_ge_zero divide_nonneg_nonneg sum_list_nonneg) auto

lemma np_mean3: "np_mean [a, b, c] = (a + b + c) / 3"
  by (simp add: np_mean_def)

lemma np_std3:
  "np_std [a, b, c] =
     sqrt (((a - (a + b + c) / 3)\<^sup>2 + (b - (a + b + c) / 3)\<^sup>2 + (c - (a + b + c) / 3)\<^sup>2) / 3)"
  by (simp add: np_std_def np_mean_def add.assoc)

lemma map_input_Inr:
  assumes "map_input self pd = Inr data"
  shows "\<exists>mh ml. median_values (stats self) ''House size'' = Some mh
        \<and> median_values (stats self) ''Land size'' = Some ml
        \<and> data ''propertyType'' = Some (Str (property_type pd))
        \<and> data ''Location'' = Some (Str (location pd))
        \<and> data ''Bedroom'' = Some (Num (of_int (bedrooms pd)))
        \<and> data ''bathroom'' = Some (Num (of_int (bathrooms pd)))
        \<and> data ''House size'' = Some (get_size (house_size pd) (Num mh))
        \<and> data ''Land size'' = Some (get_size (land_size pd) (Num ml))"
  using assms by (auto simp: map_input_def getitem_def split: option.splits)

lemma engineer_features_Inr:
  assumes "engineer_features self data = Inr data'"
  shows "\<exists>ba be ratio area loc pt.
           data ''bathroom'' = Some ba \<and> data ''Bedroom'' = Some be
         \<and> py_truediv ba be = Inr ratio
         \<and> py_add (dict_get data ''House size'' (Num 0)) (dict_get data ''Land size'' (Num 0))
             = Inr area
         \<and> data ''Location'' = Some loc \<and> data ''propertyType'' = Some pt
         \<and> data' = data
             (''bath_bed_ratio'' \<mapsto> ratio,
              ''total_area'' \<mapsto> area,
              ''location_premium'' \<mapsto> Num (premium_of
                 (premium_table (le_location self) (location_premium (stats self))) loc),
              ''property_premium'' \<mapsto> Num (premium_of
                 (premium_table (le_property self) (property_premium (stats self))) pt))"
  using assms
  by (auto simp: engineer_features_def getitem_def dict_get_def Let_def
      split: sum.splits option.splits)

lemma engineer_features_keeps:
  assumes "engineer_features self data = Inr data'"
  shows "data' ''House size'' = data ''House size'' \<and> data' ''Land size'' = data ''Land size''
       \<and> data' ''propertyType'' = data ''propertyType'' \<and> data' ''Location'' = data ''Location''"
  using engineer_features_Inr [OF assms] by auto

lemma py_add_Inr_Num:
  "py_add (get_size hs (Num mh)) (get_size ls (Num ml)) = Inr area \<Longrightarrow>
   \<exists>h l. get_size hs (Num mh) = Num h \<and> get_size ls (Num ml) = Num l \<and> area = Num (h + l)"
  by (cases hs; cases ls) auto

lemma py_add_Null:
  "hs = Null \<or> ls = Null \<Longrightarrow> py_add (get_size hs (Num mh)) (get_size ls (Num ml)) = Inl TypeError"
  by (cases hs; cases ls) auto

lemma engineer_features_zero_bedrooms:
  assumes "map_input self pd = Inr data" and "bedrooms pd = 0"
  shows "engineer_features self data = Inl ZeroDivisionError"
  using map_input_Inr [OF assms(1)] assms(2)
  by (auto simp: engineer_features_def getitem_def)

lemma engineer_features_null_size:
  assumes "map_input self pd = Inr data" and "house_size pd = Null \<or> land_size pd = Null"
  shows "engineer_features self data = Inl (if bedrooms pd = 0 then ZeroDivisionError else TypeError)"
proof -
  from map_input_Inr [OF assms(1)] obtain mh ml where d:
    "data ''Bedroom'' = Some (Num (of_int (bedrooms pd)))"
    "data ''bathroom'' = Some (Num (of_int (bathrooms pd)))"
    "data ''House size'' = Some (get_size (house_size pd) (Num mh))"
    "data ''Land size'' = Some (get_size (land_size pd) (Num ml))"
    by blast
  show ?thesis
    using d py_add_Null [OF assms(2), of mh ml]
    by (simp add: engineer_features_def getitem_def dict_get_def)
qed

lemma index_of_None: "index_of s cs = None \<longleftrightarrow> s \<notin> set cs"
  by (induction cs) (auto split: option.splits)

lemma index_of_Some: "index_of s cs = Some i \<Longrightarrow> s \<in> set cs"
  using index_of_None [of s cs] by auto

lemma encode_categoricals_unknown:
  assumes "data ''propertyType'' = Some (Str t)" and "data ''Location'' = Some (Str l)"
    and "t \<notin> set (classes (le_property self)) \<or> l \<notin> set (classes (le_location self))"
  shows "encode_categoricals self data
           = Inl (ValueError (''Invalid property type or location: '' @ unseen_labels))"
  using assms
  by (auto simp: encode_categoricals_def getitem_def reraise_invalid_def index_of_None
      split: option.splits dest: index_of_Some)

lemma prepare_input_models:
  "prepare_input (self \<lparr> models := ms \<rparr>) pd = prepare_input self pd"
proof -
  have m: "map_input (self \<lparr> models := ms \<rparr>) pd = map_input self pd"
    by (simp add: map_input_def cong: sum.case_cong)
  have f: "engineer_features (self \<lparr> models := ms \<rparr>) data = engineer_features self data" for data
    by (simp add: engineer_features_def cong: sum.case_cong)
  have c: "encode_categoricals (self \<lparr> models := ms \<rparr>) data = encode_categoricals self data"
    for data
    by (simp add: encode_categoricals_def cong: sum.case_cong)
  show ?thesis
    by (simp add: prepare_input_def engineered_input_def m f c cong: sum.case_cong)
qed

lemma engineered_input_Inr:
  assumes "engineered_input self pd = Inr data'"
  shows "\<exists>data. map_input self pd = Inr data \<and> engineer_features self data = Inr data'"
  using assms by (cases "map_input self pd") (simp_all add: engineered_input_def)

lemma select_columns_nth:
  "select_columns df ns = Inr X \<Longrightarrow> i < length ns \<Longrightarrow> df (ns ! i) = Some (X ! i)"
proof (induction ns arbitrary: X i)
  case Nil
  then show ?case by simp
next
  case (Cons n ns)
  show ?case
  proof (cases "df n")
    case None
    with Cons.prems show ?thesis by simp
  next
    case (Some v)
    with Cons.prems obtain vs where vs: "select_columns df ns = Inr vs" "X = v # vs"
      by (cases "select_columns df ns") auto
    show ?thesis
    proof (cases i)
      case 0
      with Some vs show ?thesis by simp
    next
      case (Suc j)
      with Cons.prems have "j < length ns" by simp
      from Cons.IH [OF vs(1) this] Suc vs show ?thesis by simp
    qed
  qed
qed

lemma encode_categoricals_Inr:
  assumes "encode_categoricals self data = Inr df"
  shows "\<exists>pc lc. df = data(''propertyType'' \<mapsto> pc, ''Location'' \<mapsto> lc)"
proof -
  obtain pt where 1: "getitem data ''propertyType'' = Inr pt"
    using assms by (cases "getitem data ''propertyType''") (simp_all add: encode_categoricals_def)
  obtain pc where 2: "le_transform (le_property self) pt = Inr pc"
    using assms 1 by (cases "le_transform (le_property self) pt") (simp_all add: encode_categoricals_def)
  obtain loc where 3: "getitem data ''Location'' = Inr loc"
    using assms 1 2 by (cases "getitem data ''Location''") (simp_all add: encode_categoricals_def)
  obtain lc where 4: "le_transform (le_location self) loc = Inr lc"
    using assms 1 2 3 by (cases "le_transform (le_location self) loc") (simp_all add: encode_categoricals_def)
  show ?thesis
    using assms 1 2 3 4 by (auto simp add: encode_categoricals_def)
qed

lemma encode_categoricals_keeps:
  assumes "encode_categoricals self data = Inr df" and "k \<noteq> ''propertyType''" and "k \<noteq> ''Location''"
  shows "df k = data k"
  using encode_categoricals_Inr [OF assms(1)] assms(2,3) by auto

lemma prepare_input_Inr:
  assumes "prepare_input self pd = Inr X"
  shows "\<exists>data data' df. map_input self pd = Inr data \<and> engineer_features self data = Inr data'
       \<and> encode_categoricals self data' = Inr df \<and> select_columns df (feature_names self) = Inr X"
proof -
  obtain data' where 1: "engineered_input self pd = Inr data'"
    using assms by (cases "engineered_input self pd") (simp_all add: prepare_input_def)
  obtain df where 2: "encode_categoricals self data' = Inr df"
    using assms 1 by (cases "encode_categoricals self data'") (simp_all add: prepare_input_def)
  have 3: "select_columns df (feature_names self) = Inr X"
    using assms 1 2 by (simp add: prepare_input_def)
  from engineered_input_Inr [OF 1] 2 3 show ?thesis by blast
qed

lemma prepare_input_size_columns:
  assumes "prepare_input self pd = Inr X" and "map_input self pd = Inr data"
    and "i < length (feature_names self)"
    and "feature_names self ! i = ''House size'' \<or> feature_names self ! i = ''Land size''"
  shows "data (feature_names self ! i) = Some (X ! i)"
proof -
  from prepare_input_Inr [OF assms(1)] assms(2) obtain data' df where
    s: "engineer_features self data = Inr data'" "encode_categoricals self data' = Inr df"
       "select_columns df (feature_names self) = Inr X"
    by auto
  have "df (feature_names self ! i) = data' (feature_names self ! i)"
    using assms(4) encode_categoricals_keeps [OF s(2), of "feature_names self ! i"] by auto
  also have "\<dots> = data (feature_names self ! i)"
    using assms(4) engineer_features_keeps [OF s(1)] by auto
  finally show ?thesis
    using select_columns_nth [OF s(3) assms(3)] by simp
qed

lemma mset_insert_desc: "mset (insert_desc x ys) = add_mset x (mset ys)"
  by (induction ys) auto

lemma sorted_desc_perm: "mset (sorted_desc xs) = mset xs"
  by (induction xs) (simp_all add: sorted_desc_def mset_insert_desc)

lemma set_insert_desc: "set (insert_desc x ys) = insert x (set ys)"
  by (induction ys) auto

lemma sorted_insert_desc:
  "sorted_wrt (\<lambda>a b. snd b \<le> snd a) ys \<Longrightarrow> sorted_wrt (\<lambda>a b. snd b \<le> snd a) (insert_desc x ys)"
  by (induction ys) (auto simp: set_insert_desc)

lemma sorted_desc_sorted: "sorted_wrt (\<lambda>a b. snd b \<le> snd a) (sorted_desc xs)"
  by (induction xs) (simp_all add: sorted_desc_def sorted_insert_desc)

lemma filter_insert_desc:
  "filter (\<lambda>p. snd p = w) (insert_desc x ys)
     = (if snd x = w then x # filter (\<lambda>p. snd p = w) ys else filter (\<lambda>p. snd p = w) ys)"
  by (induction ys) auto

lemma sorted_desc_stable:
  "filter (\<lambda>p. snd p = w) (sorted_desc xs) = filter (\<lambda>p. snd p = w) xs"
  by (induction xs) (simp_all add: sorted_desc_def filter_insert_desc)

lemma dict_set_fresh: "k \<notin> fst ` set d \<Longrightarrow> dict_set d k v = d @ [(k, v)]"
  by (induction d) auto

lemma foldl_dict_set_distinct:
  "distinct (map fst (d @ items)) \<Longrightarrow> foldl (\<lambda>d (k, v). dict_set d k v) d items = d @ items"
proof (induction items arbitrary: d)
  case Nil
  then show ?case by simp
next
  case (Cons kv items)
  obtain k v where kv: "kv = (k, v)" by (cases kv)
  from Cons.prems kv have f: "k \<notin> fst ` set d" by auto
  from Cons.prems kv have "distinct (map fst ((d @ [(k, v)]) @ items))" by simp
  from Cons.IH [OF this] show ?case
    by (simp add: kv dict_set_fresh [OF f])
qed

lemma dict_of_items_distinct: "distinct (map fst items) \<Longrightarrow> dict_of_items items = items"
  using foldl_dict_set_distinct [of "[]" items] by (simp add: dict_of_items_def)

lemma size_sentences_length: "length (size_sentences hs) \<le> 1"
  by (cases hs) (simp_all add: size_sentences_def)

lemma size_sentences_nonempty: "(size_sentences hs \<noteq> []) = (\<exists>x. hs = Given x \<and> x \<noteq> 0)"
  by (cases hs) (simp_all add: size_sentences_def)

text \<open>The model bank and the requests of the examples, evaluated.\<close>

lemmas stub_defs =
  stub_predictor_def stub_models_def stub_forest_def stub_stats_def stub_feature_names_def
  negative_ridge_predictor_def

lemmas request_defs =
  kilimani_request_def unknown_location_request_def zero_bedroom_request_def
  no_house_size_request_def null_house_size_request_def

lemmas pipeline_defs =
  prepare_input_def engineered_input_def map_input_def engineer_features_def
  encode_categoricals_def getitem_def dict_get_def premium_table_def Let_def

lemma prepare_kilimani: "prepare_input stub_predictor kilimani_request = Inr kilimani_row"
  by (simp add: pipeline_defs stub_defs request_defs kilimani_row_def)

lemma prepare_kilimani_negative_ridge:
  "prepare_input negative_ridge_predictor kilimani_request = Inr kilimani_row"
  by (simp add: pipeline_defs stub_defs request_defs kilimani_row_def)

lemma stub_tree_std:
  "np_std (map (\<lambda>tree. tree kilimani_row) (estimators (rf (models stub_predictor)))) = 1000000"
  by (simp add: stub_defs np_std_def np_mean_def)

lemma negative_ridge_tree_std:
  "np_std (map (\<lambda>tree. tree kilimani_row) (estimators (rf (models negative_ridge_predictor))))
     = 1000000"
  by (simp add: stub_defs np_std_def np_mean_def)

lemma engineered_no_house_size:
  "\<not> isl (engineered_input stub_predictor no_house_size_request)
   \<and> projr (engineered_input stub_predictor no_house_size_request) ''total_area'' = Some (Num 120)"
  by (simp add: pipeline_defs stub_defs request_defs)

lemma prepare_no_house_size:
  "prepare_input stub_predictor no_house_size_request
     = Inr [Num 0, Num 1, Num 3, Num 2, Num 120, Num 0, Num (2 / 3), Num 120, Num 1.5, Num 0]"
  by (simp add: pipeline_defs stub_defs request_defs)

lemma sample_top_features:
  "top_features sample_result = [(''Location'', 0.3), (''House size'', 0.3), (''Bedroom'', 0.1)]"
  by (simp add: top_features_def sample_result_def stub_defs sorted_desc_def)

subsection \<open>The weighted ensemble\<close>

text \<open>
  Claim C1, as amended. For every feature row \<open>X\<close> the ensemble prediction is
  \<open>0.5 * rf_pred + 0.3 * gb_pred + 0.2 * ridge_pred\<close>, the forest and the boosted model
  reading the row as it is and the linear model reading the scaler's transform of it; this
  is the \<open>predicted_price\<close> of every result. When the three models return 2.0e7, 2.1e7 and
  1.9e7 and the scaler is the identity, the price is 2.01e7 (the claim's figure 1.99e7 is
  not the value of its own formula).
\<close>

theorem ensemble_predict_weighted:
  "ensemble_predict self X =
     0.5 * rf_predict (rf (models self)) X + 0.3 * gb (models self) X
       + 0.2 * ridge (models self) (scaler (models self) X)
   \<and> (rf_predict (rf (models self)) X = 20000000 \<and> gb (models self) X = 21000000
        \<and> scaler (models self) X = X \<and> ridge (models self) X = 19000000
      \<longrightarrow> ensemble_predict self X = 20100000)
   \<and> (prepare_input self pd = Inr X
      \<longrightarrow> (\<exists>r. predict_with_confidence self pd = Inr r
             \<and> predicted_price r = ensemble_predict self X))"
  by (simp add: ensemble_predict_def predict_with_confidence_Inr)

text \<open>The scenario of the specification, run through the whole pipeline.\<close>

theorem ensemble_predict_weighted_witness:
  "prepare_input stub_predictor kilimani_request = Inr kilimani_row
   \<and> rf_predict (rf (models stub_predictor)) kilimani_row = 20000000
   \<and> gb (models stub_predictor) kilimani_row = 21000000
   \<and> scaler (models stub_predictor) kilimani_row = kilimani_row
   \<and> ridge (models stub_predictor) kilimani_row = 19000000
   \<and> ensemble_predict stub_predictor kilimani_row = 20100000
   \<and> predicted_price (projr (predict_with_confidence stub_predictor kilimani_request)) = 20100000"
proof -
  have stubs: "rf_predict (rf (models stub_predictor)) kilimani_row = 20000000
      \<and> gb (models stub_predictor) kilimani_row = 21000000
      \<and> scaler (models stub_predictor) kilimani_row = kilimani_row
      \<and> ridge (models stub_predictor) kilimani_row = 19000000"
    by (simp add: stub_defs)
  from ensemble_predict_weighted [of stub_predictor kilimani_row kilimani_request]
       stubs prepare_kilimani
  show ?thesis by auto
qed

text \<open>In that scenario the price is not 1.99e7.\<close>

theorem ensemble_scenario_counterexample:
  "rf_predict (rf (models stub_predictor)) kilimani_row = 20000000
   \<and> gb (models stub_predictor) kilimani_row = 21000000
   \<and> scaler (models stub_predictor) kilimani_row = kilimani_row
   \<and> ridge (models stub_predictor) kilimani_row = 19000000
   \<and> prepare_input stub_predictor kilimani_request = Inr kilimani_row
   \<and> ensemble_predict stub_predictor kilimani_row \<noteq> 19900000
   \<and> \<not> isl (predict_with_confidence stub_predictor kilimani_request)
   \<and> predicted_price (projr (predict_with_confidence stub_predictor kilimani_request)) \<noteq> 19900000"
  by (simp add: predict_with_confidence_Inr [OF prepare_kilimani] prepare_kilimani)
     (simp add: ensemble_predict_def stub_defs)

subsection \<open>The agreement confidence\<close>

text \<open>
  Claim C2. Whenever the input can be prepared, a result is produced whose confidence score
  is the specification's formula on the forest's prediction, the boosted model's
  prediction and the final ensemble price, and the score lies between 0 and 1 inclusive.
\<close>

theorem confidence_score_agreement:
  assumes "prepare_input self pd = Inr X"
  shows "\<exists>r. predict_with_confidence self pd = Inr r
     \<and> confidence_score r =
         spec_confidence (rf_predict (rf (models self)) X) (gb (models self) X) (predicted_price r)
     \<and> 0 \<le> confidence_score r \<and> confidence_score r \<le> 1"
  using assms
  by (simp add: predict_with_confidence_Inr np_mean3 np_std3 spec_confidence_def Let_def
      max_def min_def not_less)

theorem confidence_score_agreement_witness:
  "prepare_input stub_predictor kilimani_request = Inr kilimani_row
   \<and> \<not> isl (predict_with_confidence stub_predictor kilimani_request)
   \<and> confidence_score (projr (predict_with_confidence stub_predictor kilimani_request))
       = spec_confidence 20000000 21000000 20100000
   \<and> 0 \<le> confidence_score (projr (predict_with_confidence stub_predictor kilimani_request))
   \<and> confidence_score (projr (predict_with_confidence stub_predictor kilimani_request)) \<le> 1"
proof -
  from confidence_score_agreement [OF prepare_kilimani] obtain r where
    r: "predict_with_confidence stub_predictor kilimani_request = Inr r"
       "confidence_score r = spec_confidence (rf_predict (rf (models stub_predictor)) kilimani_row)
          (gb (models stub_predictor) kilimani_row) (predicted_price r)"
       "0 \<le> confidence_score r" "confidence_score r \<le> 1"
    by blast
  have p: "predicted_price r = 20100000"
    using r(1) by (simp add: predict_with_confidence_Inr [OF prepare_kilimani])
      (auto simp: ensemble_predict_def stub_defs)
  have m: "rf_predict (rf (models stub_predictor)) kilimani_row = 20000000"
          "gb (models stub_predictor) kilimani_row = 21000000"
    by (simp_all add: stub_defs)
  show ?thesis
    using r p m prepare_kilimani by simp
qed

subsection \<open>The prediction interval\<close>

text \<open>
  Claim C3, as amended. For a forest with at least one tree, the margin is 1.96 times the
  standard deviation of the per-tree predictions, \<open>price_range_min\<close> is
  \<open>max(0, price - margin)\<close> and \<open>price_range_max\<close> is \<open>price + margin\<close>. The price never
  exceeds \<open>price_range_max\<close>, and \<open>price_range_min\<close> does not exceed the price whenever the
  price is not negative.
\<close>

theorem price_range_interval:
  assumes "prepare_input self pd = Inr X" and "estimators (rf (models self)) \<noteq> []"
  shows "\<exists>r. predict_with_confidence self pd = Inr r
     \<and> price_range_min r = max 0 (predicted_price r
          - 1.96 * np_std (map (\<lambda>tree. tree X) (estimators (rf (models self)))))
     \<and> price_range_max r = predicted_price r
          + 1.96 * np_std (map (\<lambda>tree. tree X) (estimators (rf (models self))))
     \<and> predicted_price r \<le> price_range_max r
     \<and> (0 \<le> predicted_price r \<longrightarrow> price_range_min r \<le> predicted_price r)"
  using assms(1) np_std_nonneg [of "map (\<lambda>tree. tree X) (estimators (rf (models self)))"]
  by (simp add: predict_with_confidence_Inr)

theorem price_range_interval_witness:
  "prepare_input stub_predictor kilimani_request = Inr kilimani_row
   \<and> estimators (rf (models stub_predictor)) \<noteq> []
   \<and> \<not> isl (predict_with_confidence stub_predictor kilimani_request)
   \<and> predicted_price (projr (predict_with_confidence stub_predictor kilimani_request)) = 20100000
   \<and> price_range_min (projr (predict_with_confidence stub_predictor kilimani_request)) = 18140000
   \<and> price_range_max (projr (predict_with_confidence stub_predictor kilimani_request)) = 22060000"
proof -
  have t: "estimators (rf (models stub_predictor)) \<noteq> []"
    by (simp add: stub_defs)
  from price_range_interval [OF prepare_kilimani t] obtain r where
    r: "predict_with_confidence stub_predictor kilimani_request = Inr r"
       "price_range_min r = max 0 (predicted_price r - 1.96 * np_std (map (\<lambda>tree. tree kilimani_row)
          (estimators (rf (models stub_predictor)))))"
       "price_range_max r = predicted_price r + 1.96 * np_std (map (\<lambda>tree. tree kilimani_row)
          (estimators (rf (models stub_predictor))))"
    by blast
  have p: "predicted_price r = 20100000"
    using r(1) by (simp add: predict_with_confidence_Inr [OF prepare_kilimani])
      (auto simp: ensemble_predict_def stub_defs)
  show ?thesis
    using r p t prepare_kilimani by (simp add: stub_tree_std)
qed

text \<open>
  With a linear model that predicts far below zero the ensemble price is negative, the
  lower bound is floored at 0, and the lower bound lies above the price.
\<close>

theorem price_range_counterexample:
  "prepare_input negative_ridge_predictor kilimani_request = Inr kilimani_row
   \<and> estimators (rf (models negative_ridge_predictor)) \<noteq> []
   \<and> \<not> isl (predict_with_confidence negative_ridge_predictor kilimani_request)
   \<and> predicted_price (projr (predict_with_confidence negative_ridge_predictor kilimani_request))
       = - 3700000
   \<and> price_range_min (projr (predict_with_confidence negative_ridge_predictor kilimani_request)) = 0
   \<and> \<not> price_range_min (projr (predict_with_confidence negative_ridge_predictor kilimani_request))
       \<le> predicted_price (projr (predict_with_confidence negative_ridge_predictor kilimani_request))"
proof -
  have e: "ensemble_predict negative_ridge_predictor kilimani_row = - 3700000"
    by (simp add: ensemble_predict_def stub_defs)
  have t: "estimators (rf (models negative_ridge_predictor)) \<noteq> []"
    by (simp add: stub_defs)
  show ?thesis
    using t prepare_kilimani_negative_ridge
    by (simp add: predict_with_confidence_Inr [OF prepare_kilimani_negative_ridge]
        e negative_ridge_tree_std)
qed

subsection \<open>Labels outside the trained vocabulary\<close>

text \<open>
  Claim C4, as amended. For every request whose property type or location lies outside the
  trained vocabulary, no feature row and no prediction is produced, and the outcome is the
  same whatever the regression models are: the ensemble predictor is never reached. When
  feature engineering succeeds, the encoding step raises Python's built-in \<open>ValueError\<close>,
  raised anew with the prefix \<open>Invalid property type or location\<close>; the code has no
  dedicated error type for it.
\<close>

theorem unknown_category_raises:
  assumes "property_type pd \<notin> set (classes (le_property self))
         \<or> location pd \<notin> set (classes (le_location self))"
  shows "isl (prepare_input self pd) \<and> isl (predict_with_confidence self pd)
       \<and> (\<forall>data. engineered_input self pd = Inr data \<longrightarrow>
             encode_categoricals self data
               = Inl (ValueError (''Invalid property type or location: '' @ unseen_labels))
           \<and> predict_with_confidence self pd
               = Inl (ValueError (''Invalid property type or location: '' @ unseen_labels)))
       \<and> (\<forall>ms. predict_with_confidence (self \<lparr> models := ms \<rparr>) pd
               = predict_with_confidence self pd)"
proof -
  have enc: "encode_categoricals self data
               = Inl (ValueError (''Invalid property type or location: '' @ unseen_labels))"
    if "engineered_input self pd = Inr data" for data
  proof -
    from engineered_input_Inr [OF that] obtain d0 where
      d0: "map_input self pd = Inr d0" "engineer_features self d0 = Inr data"
      by blast
    from map_input_Inr [OF d0(1)] engineer_features_keeps [OF d0(2)]
    have "data ''propertyType'' = Some (Str (property_type pd))"
         "data ''Location'' = Some (Str (location pd))"
      by auto
    then show ?thesis
      using assms by (rule encode_categoricals_unknown)
  qed
  have prep: "isl (prepare_input self pd)"
    using enc by (cases "engineered_input self pd") (simp_all add: prepare_input_def)
  then obtain e where e: "prepare_input self pd = Inl e"
    by (cases "prepare_input self pd") simp_all
  have pred: "predict_with_confidence self pd = Inl e"
    using e by (rule predict_with_confidence_Inl)
  have val: "e = ValueError (''Invalid property type or location: '' @ unseen_labels)"
    if "engineered_input self pd = Inr data" for data
    using e enc [OF that] that by (simp add: prepare_input_def)
  have indep: "predict_with_confidence (self \<lparr> models := ms \<rparr>) pd
                 = predict_with_confidence self pd" for ms
  proof -
    have "prepare_input (self \<lparr> models := ms \<rparr>) pd = Inl e"
      using e by (simp add: prepare_input_models)
    then show ?thesis
      using pred by (simp add: predict_with_confidence_Inl)
  qed
  show ?thesis
    using prep pred enc val indep by auto
qed

theorem unknown_category_raises_witness:
  "location unknown_location_request \<notin> set (classes (le_location stub_predictor))
   \<and> \<not> isl (engineered_input stub_predictor unknown_location_request)
   \<and> encode_categoricals stub_predictor
         (projr (engineered_input stub_predictor unknown_location_request))
       = Inl (ValueError (''Invalid property type or location: '' @ unseen_labels))
   \<and> isl (prepare_input stub_predictor unknown_location_request)
   \<and> predict_with_confidence stub_predictor unknown_location_request
       = Inl (ValueError (''Invalid property type or location: '' @ unseen_labels))
   \<and> predict_with_confidence (stub_predictor \<lparr> models := models negative_ridge_predictor \<rparr>)
         unknown_location_request
       = predict_with_confidence stub_predictor unknown_location_request"
proof -
  have h: "location unknown_location_request \<notin> set (classes (le_location stub_predictor))"
    by (simp add: stub_defs request_defs)
  have g: "\<not> isl (engineered_input stub_predictor unknown_location_request)"
    by (simp add: pipeline_defs stub_defs request_defs)
  then have g': "engineered_input stub_predictor unknown_location_request
      = Inr (projr (engineered_input stub_predictor unknown_location_request))"
    by (cases "engineered_input stub_predictor unknown_location_request") simp_all
  note t = unknown_category_raises [of unknown_location_request stub_predictor, OF disjI2 [OF h]]
  from t g' have "encode_categoricals stub_predictor
         (projr (engineered_input stub_predictor unknown_location_request))
       = Inl (ValueError (''Invalid property type or location: '' @ unseen_labels))
     \<and> predict_with_confidence stub_predictor unknown_location_request
       = Inl (ValueError (''Invalid property type or location: '' @ unseen_labels))"
    by blast
  with t h g show ?thesis by blast
qed

text \<open>The exception raised for an unknown location is a \<open>ValueError\<close>, not an \<open>UnknownCategoryError\<close>.\<close>

theorem unknown_category_counterexample:
  "location unknown_location_request \<notin> set (classes (le_location stub_predictor))
   \<and> predict_with_confidence stub_predictor unknown_location_request
       = Inl (ValueError ''Invalid property type or location: y contains previously unseen labels'')
   \<and> exn_class (ValueError ''Invalid property type or location: y contains previously unseen labels'')
       = ''ValueError''
   \<and> exn_class (ValueError ''Invalid property type or location: y contains previously unseen labels'')
       \<noteq> ''UnknownCategoryError''"
proof -
  have "prepare_input stub_predictor unknown_location_request
       = Inl (ValueError ''Invalid property type or location: y contains previously unseen labels'')"
    by (simp add: pipeline_defs stub_defs request_defs reraise_invalid_def unseen_labels_def)
  then show ?thesis
    by (simp add: predict_with_confidence_Inl) (simp add: stub_defs request_defs)
qed

subsection \<open>Zero bedrooms\<close>

text \<open>
  Claim C5, as amended. For a request with \<open>bedrooms = 0\<close> the division that computes
  \<open>bath_bed_ratio\<close> raises Python's built-in \<open>ZeroDivisionError\<close> (the code has no
  dedicated error type for it), and the request ends in an error: no feature row is
  produced, so no undefined ratio reaches the feature vector.
\<close>

theorem zero_bedrooms_raise:
  assumes "bedrooms pd = 0"
  shows "(\<forall>data. map_input self pd = Inr data \<longrightarrow>
            engineer_features self data = Inl ZeroDivisionError
          \<and> prepare_input self pd = Inl ZeroDivisionError
          \<and> predict_with_confidence self pd = Inl ZeroDivisionError)
       \<and> isl (engineered_input self pd) \<and> isl (prepare_input self pd)
       \<and> isl (predict_with_confidence self pd)"
proof -
  have a: "engineer_features self data = Inl ZeroDivisionError"
    if "map_input self pd = Inr data" for data
    using that assms by (rule engineer_features_zero_bedrooms)
  have b: "isl (engineered_input self pd)"
    using a by (cases "map_input self pd") (simp_all add: engineered_input_def)
  then obtain e where e: "engineered_input self pd = Inl e"
    by (cases "engineered_input self pd") simp_all
  then have c: "prepare_input self pd = Inl e"
    by (simp add: prepare_input_def)
  have d: "e = ZeroDivisionError" if "map_input self pd = Inr data" for data
    using that a [OF that] e by (simp add: engineered_input_def)
  show ?thesis
    using a b c d predict_with_confidence_Inl [OF c] by auto
qed

theorem zero_bedrooms_raise_witness:
  "bedrooms zero_bedroom_request = 0
   \<and> \<not> isl (map_input stub_predictor zero_bedroom_request)
   \<and> engineer_features stub_predictor (projr (map_input stub_predictor zero_bedroom_request))
       = Inl ZeroDivisionError
   \<and> prepare_input stub_predictor zero_bedroom_request = Inl ZeroDivisionError
   \<and> predict_with_confidence stub_predictor zero_bedroom_request = Inl ZeroDivisionError"
proof -
  have h: "bedrooms zero_bedroom_request = 0"
    by (simp add: request_defs)
  have g: "\<not> isl (map_input stub_predictor zero_bedroom_request)"
    by (simp add: map_input_def getitem_def stub_defs)
  then have g': "map_input stub_predictor zero_bedroom_request
      = Inr (projr (map_input stub_predictor zero_bedroom_request))"
    by (cases "map_input stub_predictor zero_bedroom_request") simp_all
  from zero_bedrooms_raise [of zero_bedroom_request stub_predictor, OF h] g' h g
  show ?thesis by blast
qed

text \<open>The exception raised for zero bedrooms is a \<open>ZeroDivisionError\<close>, not a \<open>DomainError\<close>.\<close>

theorem zero_bedrooms_counterexample:
  "bedrooms zero_bedroom_request = 0
   \<and> engineered_input stub_predictor zero_bedroom_request = Inl ZeroDivisionError
   \<and> predict_with_confidence stub_predictor zero_bedroom_request = Inl ZeroDivisionError
   \<and> exn_class ZeroDivisionError \<noteq> ''DomainError''"
proof -
  have e: "engineered_input stub_predictor zero_bedroom_request = Inl ZeroDivisionError"
    by (simp add: pipeline_defs stub_defs request_defs)
  then have "prepare_input stub_predictor zero_bedroom_request = Inl ZeroDivisionError"
    by (simp add: prepare_input_def)
  then show ?thesis
    using e by (simp add: predict_with_confidence_Inl request_defs)
qed

subsection \<open>Median substitution\<close>

text \<open>
  Claim C6 says that a missing size is replaced by the stored training median before
  feature engineering. For a size that the client omitted, the views pass the key with the
  value \<open>None\<close>, and the default of \<open>.get\<close> does not apply: the dict handed to
  \<open>engineer_features\<close> holds \<open>None\<close> for the missing field and not the median, feature
  engineering raises, and no feature row and no result is produced.
\<close>

theorem omitted_size_not_substituted:
  assumes "house_size vd = Absent \<or> land_size vd = Absent"
  shows "(house_size vd = Absent \<longrightarrow> house_size (view_property_data vd) = Null)
       \<and> (land_size vd = Absent \<longrightarrow> land_size (view_property_data vd) = Null)
       \<and> (\<forall>data. map_input self (view_property_data vd) = Inr data \<longrightarrow>
            (house_size vd = Absent \<longrightarrow> data ''House size'' = Some NoneV)
          \<and> (land_size vd = Absent \<longrightarrow> data ''Land size'' = Some NoneV)
          \<and> engineer_features self data
              = Inl (if bedrooms vd = 0 then ZeroDivisionError else TypeError))
       \<and> isl (prepare_input self (view_property_data vd))
       \<and> isl (predict_with_confidence self (view_property_data vd))"
proof -
  let ?pd = "view_property_data vd"
  have v: "(house_size vd = Absent \<longrightarrow> house_size ?pd = Null)
         \<and> (land_size vd = Absent \<longrightarrow> land_size ?pd = Null)"
    by (simp add: view_property_data_def)
  have n: "house_size ?pd = Null \<or> land_size ?pd = Null"
    using assms v by blast
  have b: "bedrooms ?pd = bedrooms vd"
    by (simp add: view_property_data_def)
  have a: "engineer_features self data
             = Inl (if bedrooms vd = 0 then ZeroDivisionError else TypeError)"
    if "map_input self ?pd = Inr data" for data
    using engineer_features_null_size [OF that n] b by simp
  have m: "(house_size vd = Absent \<longrightarrow> data ''House size'' = Some NoneV)
         \<and> (land_size vd = Absent \<longrightarrow> data ''Land size'' = Some NoneV)"
    if "map_input self ?pd = Inr data" for data
    using map_input_Inr [OF that] v by auto
  have "isl (engineered_input self ?pd)"
    using a by (cases "map_input self ?pd") (simp_all add: engineered_input_def)
  then obtain e where "engineered_input self ?pd = Inl e"
    by (cases "engineered_input self ?pd") simp_all
  then have c: "prepare_input self ?pd = Inl e"
    by (simp add: prepare_input_def)
  show ?thesis
    using v a m c predict_with_confidence_Inl [OF c] by auto
qed

theorem omitted_size_not_substituted_witness:
  "house_size no_house_size_request = Absent
   \<and> land_size no_house_size_request = Given 0
   \<and> bedrooms no_house_size_request \<noteq> 0
   \<and> median_values (stats stub_predictor) ''House size'' = Some 120
   \<and> house_size (view_property_data no_house_size_request) = Null
   \<and> \<not> isl (map_input stub_predictor (view_property_data no_house_size_request))
   \<and> projr (map_input stub_predictor (view_property_data no_house_size_request)) ''House size''
       = Some NoneV
   \<and> engineer_features stub_predictor
         (projr (map_input stub_predictor (view_property_data no_house_size_request)))
       = Inl TypeError
   \<and> isl (prepare_input stub_predictor (view_property_data no_house_size_request))
   \<and> isl (predict_with_confidence stub_predictor (view_property_data no_house_size_request))"
proof -
  have a: "house_size no_house_size_request = Absent"
    and l: "land_size no_house_size_request = Given 0"
    and b: "bedrooms no_house_size_request \<noteq> 0"
    by (simp_all add: request_defs)
  have md: "median_values (stats stub_predictor) ''House size'' = Some 120"
    by (simp add: stub_defs)
  have g: "\<not> isl (map_input stub_predictor (view_property_data no_house_size_request))"
    by (simp add: map_input_def getitem_def stub_defs)
  then have g': "map_input stub_predictor (view_property_data no_house_size_request)
      = Inr (projr (map_input stub_predictor (view_property_data no_house_size_request)))"
    by (cases "map_input stub_predictor (view_property_data no_house_size_request)") simp_all
  note t = omitted_size_not_substituted [of no_house_size_request stub_predictor, OF disjI1 [OF a]]
  from t a have h: "house_size (view_property_data no_house_size_request) = Null"
    by blast
  from t g' a b
  have "projr (map_input stub_predictor (view_property_data no_house_size_request)) ''House size''
          = Some NoneV
      \<and> engineer_features stub_predictor
            (projr (map_input stub_predictor (view_property_data no_house_size_request)))
          = Inl TypeError"
    by auto
  with t a l b md h g show ?thesis by blast
qed

text \<open>
  Only a request dict that lacks the key takes the default. There, with exactly one size
  missing, the dict handed to feature engineering holds the median for the missing field
  and the supplied value for the other one, and so does the feature row at the positions
  of \<open>House size\<close> and \<open>Land size\<close>.
\<close>

lemma median_fills_only_missing:
  assumes "median_values (stats self) ''House size'' = Some mh"
    and "median_values (stats self) ''Land size'' = Some ml"
    and "house_size pd = Absent \<and> land_size pd = Given l
       \<or> house_size pd = Given h \<and> land_size pd = Absent"
  shows "\<exists>data. map_input self pd = Inr data
     \<and> data ''House size'' = Some (Num (if house_size pd = Absent then mh else h))
     \<and> data ''Land size'' = Some (Num (if land_size pd = Absent then ml else l))
     \<and> (\<forall>X i. prepare_input self pd = Inr X \<and> i < length (feature_names self) \<longrightarrow>
           (feature_names self ! i = ''House size''
              \<longrightarrow> X ! i = Num (if house_size pd = Absent then mh else h))
         \<and> (feature_names self ! i = ''Land size''
              \<longrightarrow> X ! i = Num (if land_size pd = Absent then ml else l)))"
proof -
  obtain data where d: "map_input self pd = Inr data"
    using assms(1,2) by (simp add: map_input_def getitem_def)
  from map_input_Inr [OF d] assms
  have hs: "data ''House size'' = Some (Num (if house_size pd = Absent then mh else h))"
    and ls: "data ''Land size'' = Some (Num (if land_size pd = Absent then ml else l))"
    by auto
  have "X ! i = Num (if house_size pd = Absent then mh else h)"
    if "prepare_input self pd = Inr X" "i < length (feature_names self)"
       "feature_names self ! i = ''House size''" for X i
    using prepare_input_size_columns [OF that(1) d that(2)] that(3) hs by simp
  moreover have "X ! i = Num (if land_size pd = Absent then ml else l)"
    if "prepare_input self pd = Inr X" "i < length (feature_names self)"
       "feature_names self ! i = ''Land size''" for X i
    using prepare_input_size_columns [OF that(1) d that(2)] that(3) ls by simp
  ultimately show ?thesis
    using d hs ls by blast
qed

lemma median_fills_only_missing_example:
  "median_values (stats stub_predictor) ''House size'' = Some 120
   \<and> median_values (stats stub_predictor) ''Land size'' = Some 500
   \<and> house_size no_house_size_request = Absent \<and> land_size no_house_size_request = Given 0
   \<and> \<not> isl (map_input stub_predictor no_house_size_request)
   \<and> projr (map_input stub_predictor no_house_size_request) ''House size'' = Some (Num 120)
   \<and> projr (map_input stub_predictor no_house_size_request) ''Land size'' = Some (Num 0)
   \<and> \<not> isl (prepare_input stub_predictor no_house_size_request)
   \<and> feature_names stub_predictor ! 4 = ''House size''
   \<and> feature_names stub_predictor ! 5 = ''Land size''
   \<and> projr (prepare_input stub_predictor no_house_size_request) ! 4 = Num 120
   \<and> projr (prepare_input stub_predictor no_house_size_request) ! 5 = Num 0"
proof -
  have a: "median_values (stats stub_predictor) ''House size'' = Some 120"
    and b: "median_values (stats stub_predictor) ''Land size'' = Some 500"
    by (simp_all add: stub_defs)
  have c: "house_size no_house_size_request = Absent \<and> land_size no_house_size_request = Given 0"
    by (simp add: request_defs)
  have n: "feature_names stub_predictor ! 4 = ''House size''"
          "feature_names stub_predictor ! 5 = ''Land size''"
          "4 < length (feature_names stub_predictor)" "5 < length (feature_names stub_predictor)"
    by (simp_all add: stub_defs)
  have p: "prepare_input stub_predictor no_house_size_request
      = Inr (projr (prepare_input stub_predictor no_house_size_request))"
    by (simp add: prepare_no_house_size)
  have q: "\<not> isl (prepare_input stub_predictor no_house_size_request)"
    by (simp add: prepare_no_house_size)
  from median_fills_only_missing [OF a b disjI1 [OF c], of 0] obtain data where
    d: "map_input stub_predictor no_house_size_request = Inr data"
       "data ''House size'' = Some (Num (if house_size no_house_size_request = Absent then 120 else 0))"
       "data ''Land size'' = Some (Num (if land_size no_house_size_request = Absent then 500 else 0))"
    and x: "\<And>X i. prepare_input stub_predictor no_house_size_request = Inr X
              \<and> i < length (feature_names stub_predictor) \<Longrightarrow>
           (feature_names stub_predictor ! i = ''House size''
              \<longrightarrow> X ! i = Num (if house_size no_house_size_request = Absent then 120 else 0))
         \<and> (feature_names stub_predictor ! i = ''Land size''
              \<longrightarrow> X ! i = Num (if land_size no_house_size_request = Absent then 500 else 0))"
    by blast
  from x [OF conjI [OF p n(3)]] x [OF conjI [OF p n(4)]] n(1,2) c
  have "projr (prepare_input stub_predictor no_house_size_request) ! 4 = Num 120"
       "projr (prepare_input stub_predictor no_house_size_request) ! 5 = Num 0"
    by simp_all
  then show ?thesis
    using a b c d n q by simp
qed

subsection \<open>The total area\<close>

text \<open>
  Claim C7, as amended. \<open>total_area\<close> is the sum of the \<open>House size\<close> and \<open>Land size\<close>
  entries of the dict handed to \<open>engineer_features\<close>, an entry that this dict lacks
  counting as 0. \<open>prepare_input\<close> always supplies both entries, with the training median
  for a size the request lacks, so for every request that passes feature engineering
  \<open>total_area\<close> is the sum of the two size features after median substitution.
\<close>

theorem total_area_of_filled_sizes:
  "(engineered_input self pd = Inr data' \<longrightarrow>
      (\<exists>mh ml h l. median_values (stats self) ''House size'' = Some mh
         \<and> median_values (stats self) ''Land size'' = Some ml
         \<and> get_size (house_size pd) (Num mh) = Num h \<and> get_size (land_size pd) (Num ml) = Num l
         \<and> data' ''House size'' = Some (Num h) \<and> data' ''Land size'' = Some (Num l)
         \<and> data' ''total_area'' = Some (Num (h + l))))
   \<and> (engineer_features self d = Inr d' \<longrightarrow>
      (\<exists>area. py_add (dict_get d ''House size'' (Num 0)) (dict_get d ''Land size'' (Num 0)) = Inr area
         \<and> d' ''total_area'' = Some area))"
proof (intro conjI impI)
  assume a: "engineered_input self pd = Inr data'"
  from engineered_input_Inr [OF a] obtain data where
    d: "map_input self pd = Inr data" "engineer_features self data = Inr data'"
    by blast
  from map_input_Inr [OF d(1)] obtain mh ml where
    m: "median_values (stats self) ''House size'' = Some mh"
       "median_values (stats self) ''Land size'' = Some ml"
       "data ''House size'' = Some (get_size (house_size pd) (Num mh))"
       "data ''Land size'' = Some (get_size (land_size pd) (Num ml))"
    by blast
  from engineer_features_Inr [OF d(2)] obtain area where
    ar: "py_add (dict_get data ''House size'' (Num 0)) (dict_get data ''Land size'' (Num 0)) = Inr area"
        "data' ''total_area'' = Some area"
    by auto
  from ar(1) m(3,4) have "py_add (get_size (house_size pd) (Num mh)) (get_size (land_size pd) (Num ml)) = Inr area"
    by (simp add: dict_get_def)
  from py_add_Inr_Num [OF this] obtain h l where
    hl: "get_size (house_size pd) (Num mh) = Num h" "get_size (land_size pd) (Num ml) = Num l"
        "area = Num (h + l)"
    by blast
  show "\<exists>mh ml h l. median_values (stats self) ''House size'' = Some mh
         \<and> median_values (stats self) ''Land size'' = Some ml
         \<and> get_size (house_size pd) (Num mh) = Num h \<and> get_size (land_size pd) (Num ml) = Num l
         \<and> data' ''House size'' = Some (Num h) \<and> data' ''Land size'' = Some (Num l)
         \<and> data' ''total_area'' = Some (Num (h + l))"
    using m hl ar(2) engineer_features_keeps [OF d(2)] by auto
next
  assume "engineer_features self d = Inr d'"
  from engineer_features_Inr [OF this]
  show "\<exists>area. py_add (dict_get d ''House size'' (Num 0)) (dict_get d ''Land size'' (Num 0)) = Inr area
         \<and> d' ''total_area'' = Some area"
    by auto
qed

theorem total_area_of_filled_sizes_witness:
  "\<not> isl (engineered_input stub_predictor no_house_size_request)
   \<and> house_size no_house_size_request = Absent
   \<and> median_values (stats stub_predictor) ''House size'' = Some 120
   \<and> projr (engineered_input stub_predictor no_house_size_request) ''total_area''
       = Some (Num 120)
   \<and> \<not> isl (engineer_features stub_predictor land_only_data)
   \<and> land_only_data ''House size'' = None
   \<and> projr (engineer_features stub_predictor land_only_data) ''total_area'' = Some (Num 40)"
proof -
  have e: "engineered_input stub_predictor no_house_size_request
      = Inr (projr (engineered_input stub_predictor no_house_size_request))"
    using engineered_no_house_size
    by (cases "engineered_input stub_predictor no_house_size_request") simp_all
  have f: "\<not> isl (engineer_features stub_predictor land_only_data)"
    by (simp add: pipeline_defs stub_defs land_only_data_def)
  then have f': "engineer_features stub_predictor land_only_data
      = Inr (projr (engineer_features stub_predictor land_only_data))"
    by (cases "engineer_features stub_predictor land_only_data") simp_all
  have m: "median_values (stats stub_predictor) ''House size'' = Some 120"
          "median_values (stats stub_predictor) ''Land size'' = Some 500"
          "house_size no_house_size_request = Absent" "land_size no_house_size_request = Given 0"
          "land_only_data ''House size'' = None" "land_only_data ''Land size'' = Some (Num 40)"
    by (simp_all add: stub_defs request_defs land_only_data_def)
  note t = total_area_of_filled_sizes [of stub_predictor no_house_size_request
      "projr (engineered_input stub_predictor no_house_size_request)" land_only_data
      "projr (engineer_features stub_predictor land_only_data)"]
  from t e m have 1: "projr (engineered_input stub_predictor no_house_size_request) ''total_area''
       = Some (Num 120)"
    by auto
  from t f' m have 2: "projr (engineer_features stub_predictor land_only_data) ''total_area''
       = Some (Num 40)"
    by (auto simp: dict_get_def)
  show ?thesis
    using 1 2 m f engineered_no_house_size by simp
qed

text \<open>
  A request without \<open>house_size\<close> and with \<open>land_size = 0\<close>: the median 120 enters
  \<open>total_area\<close>, where the claim's sum is 0.
\<close>

theorem total_area_counterexample:
  "house_size no_house_size_request = Absent \<and> land_size no_house_size_request = Given 0
   \<and> spec_total_area no_house_size_request = 0
   \<and> \<not> isl (engineered_input stub_predictor no_house_size_request)
   \<and> projr (engineered_input stub_predictor no_house_size_request) ''total_area''
       = Some (Num 120)
   \<and> projr (engineered_input stub_predictor no_house_size_request) ''total_area''
       \<noteq> Some (Num (spec_total_area no_house_size_request))"
proof -
  have s: "spec_total_area no_house_size_request = 0"
    by (simp add: spec_total_area_def request_defs)
  show ?thesis
    using engineered_no_house_size by (simp add: s) (simp add: request_defs)
qed

subsection \<open>The explanation\<close>

text \<open>
  Claim C9. The explanation is, in this order, one sentence for the location, one for the
  property type, at most one for the size, one for the room counts and one naming the top
  three features. The size sentence is present only if a house size was provided (exactly
  when it is a number other than zero). The features are ranked by a stable descending
  sort on the importance weight: the ranking is a permutation of the importance items, in
  descending order of weight, and items of equal weight keep the order of the importance
  dict, which for distinct feature names is the order of the feature list.
\<close>

theorem explain_prediction_sentences:
  "explain_prediction pd res =
      [''Location ('' @ location pd @ ''): Premium area with high property values'',
       ''Property Type ('' @ property_type pd @ ''): Influences base price significantly'']
      @ size_sentences (house_size pd)
      @ [''Rooms: '' @ str_int (bedrooms pd) @ '' bedrooms and ''
           @ str_int (bathrooms pd) @ '' bathrooms affect pricing'',
         ''Key factors: '' @ join '', '' (map fst (top_features res))]
   \<and> length (size_sentences (house_size pd)) \<le> 1
   \<and> (size_sentences (house_size pd) \<noteq> []) = (\<exists>x. house_size pd = Given x \<and> x \<noteq> 0)
   \<and> top_features res = take 3 (sorted_desc (feature_importance res))
   \<and> mset (sorted_desc (feature_importance res)) = mset (feature_importance res)
   \<and> sorted_wrt (\<lambda>a b. snd b \<le> snd a) (sorted_desc (feature_importance res))
   \<and> (\<forall>w. filter (\<lambda>p. snd p = w) (sorted_desc (feature_importance res))
            = filter (\<lambda>p. snd p = w) (feature_importance res))
   \<and> (prepare_input self pd = Inr X \<and> distinct (feature_names self)
        \<longrightarrow> (\<exists>r. predict_with_confidence self pd = Inr r
              \<and> feature_importance r
                  = zip (feature_names self) (feature_importances (rf (models self)))))"
proof -
  have "feature_importance r = zip (feature_names self) (feature_importances (rf (models self)))"
    if "prepare_input self pd = Inr X" "distinct (feature_names self)"
       "predict_with_confidence self pd = Inr r" for r
  proof -
    have d: "distinct (map fst (zip (feature_names self) (feature_importances (rf (models self)))))"
      using that(2) by (simp add: map_fst_zip_take)
    from that(3) predict_with_confidence_Inr [OF that(1)]
    have "feature_importance r
        = dict_of_items (zip (feature_names self) (feature_importances (rf (models self))))"
      by auto
    then show ?thesis
      using dict_of_items_distinct [OF d] by simp
  qed
  then have z: "prepare_input self pd = Inr X \<and> distinct (feature_names self)
        \<longrightarrow> (\<exists>r. predict_with_confidence self pd = Inr r
              \<and> feature_importance r
                  = zip (feature_names self) (feature_importances (rf (models self))))"
    using predict_with_confidence_Inr [of self pd X] by auto
  show ?thesis
    using z size_sentences_length [of "house_size pd"]
    by (simp add: explain_prediction_def top_features_def
        size_sentences_nonempty sorted_desc_perm sorted_desc_sorted sorted_desc_stable)
qed

theorem explain_prediction_sentences_witness:
  "prepare_input stub_predictor kilimani_request = Inr kilimani_row
   \<and> distinct (feature_names stub_predictor)
   \<and> feature_importance (projr (predict_with_confidence stub_predictor kilimani_request))
       = feature_importance sample_result
   \<and> explain_prediction kilimani_request sample_result =
       [''Location (Kilimani): Premium area with high property values'',
        ''Property Type (Apartment): Influences base price significantly'',
        ''House Size: 150 m'' @ [CHR 0xC2, CHR 0xB2] @ '' contributes to overall value'',
        ''Rooms: 3 bedrooms and 2 bathrooms affect pricing'',
        ''Key factors: Location, House size, Bedroom'']"
proof -
  have d: "distinct (feature_names stub_predictor)"
    by (simp add: stub_defs)
  note t = explain_prediction_sentences [of kilimani_request sample_result stub_predictor kilimani_row]
  from t prepare_kilimani d obtain r where
    r: "predict_with_confidence stub_predictor kilimani_request = Inr r"
       "feature_importance r
          = zip (feature_names stub_predictor) (feature_importances (rf (models stub_predictor)))"
    by blast
  have f: "feature_importance (projr (predict_with_confidence stub_predictor kilimani_request))
       = feature_importance sample_result"
    using r by (simp add: sample_result_def stub_defs)
  have s: "size_sentences (house_size kilimani_request)
       = [''House Size: 150 m'' @ [CHR 0xC2, CHR 0xB2] @ '' contributes to overall value'']"
    by (simp add: size_sentences_def request_defs fmt_0f_def round_half_even_def
        str_nat.simps [of 150] str_nat.simps [of 15] str_nat.simps [of "Suc 0"])
  have n: "str_int (bedrooms kilimani_request) = ''3''" "str_int (bathrooms kilimani_request) = ''2''"
    by (simp_all add: request_defs str_int_def str_nat.simps [of 3] str_nat.simps [of 2])
  have l: "location kilimani_request = ''Kilimani''" "property_type kilimani_request = ''Apartment''"
    by (simp_all add: request_defs)
  from t have "explain_prediction kilimani_request sample_result =
      [''Location ('' @ location kilimani_request @ ''): Premium area with high property values'',
       ''Property Type ('' @ property_type kilimani_request @ ''): Influences base price significantly'']
      @ size_sentences (house_size kilimani_request)
      @ [''Rooms: '' @ str_int (bedrooms kilimani_request) @ '' bedrooms and ''
           @ str_int (bathrooms kilimani_request) @ '' bathrooms affect pricing'',
         ''Key factors: '' @ join '', '' (map fst (top_features sample_result))]"
    by blast
  then show ?thesis
    using prepare_kilimani d f by (simp add: s n l sample_top_features)
qed

subsection \<open>A size that is present with the value \<open>None\<close>\<close>

text \<open>
  Claim C10. When \<open>house_size\<close> or \<open>land_size\<close> is present with the value \<open>None\<close>, the dict
  handed to \<open>engineer_features\<close> holds \<open>None\<close> for it and not the training median, feature
  engineering raises (a \<open>TypeError\<close> from the \<open>total_area\<close> sum, unless the division by
  zero bedrooms came first), and no result is produced. The view sends exactly this for a
  size the client omitted.
\<close>

theorem null_size_raises:
  assumes "house_size pd = Null \<or> land_size pd = Null"
  shows "(\<forall>data. map_input self pd = Inr data \<longrightarrow>
            (house_size pd = Null \<longrightarrow> data ''House size'' = Some NoneV)
          \<and> (land_size pd = Null \<longrightarrow> data ''Land size'' = Some NoneV)
          \<and> engineer_features self data
              = Inl (if bedrooms pd = 0 then ZeroDivisionError else TypeError))
       \<and> isl (engineered_input self pd) \<and> isl (prepare_input self pd)
       \<and> isl (predict_with_confidence self pd)
       \<and> (house_size vd = Absent \<longrightarrow> house_size (view_property_data vd) = Null)
       \<and> (land_size vd = Absent \<longrightarrow> land_size (view_property_data vd) = Null)"
proof -
  have a: "engineer_features self data = Inl (if bedrooms pd = 0 then ZeroDivisionError else TypeError)"
    if "map_input self pd = Inr data" for data
    using that assms by (rule engineer_features_null_size)
  have n: "(house_size pd = Null \<longrightarrow> data ''House size'' = Some NoneV)
          \<and> (land_size pd = Null \<longrightarrow> data ''Land size'' = Some NoneV)"
    if "map_input self pd = Inr data" for data
    using map_input_Inr [OF that] by auto
  have b: "isl (engineered_input self pd)"
    using a by (cases "map_input self pd") (simp_all add: engineered_input_def)
  then obtain e where e: "engineered_input self pd = Inl e"
    by (cases "engineered_input self pd") simp_all
  then have c: "prepare_input self pd = Inl e"
    by (simp add: prepare_input_def)
  have v: "(house_size vd = Absent \<longrightarrow> house_size (view_property_data vd) = Null)
       \<and> (land_size vd = Absent \<longrightarrow> land_size (view_property_data vd) = Null)"
    by (simp add: view_property_data_def)
  show ?thesis
    using a n b c v predict_with_confidence_Inl [OF c] by auto
qed

theorem null_size_raises_witness:
  "house_size (view_property_data no_house_size_request) = Null
   \<and> house_size no_house_size_request = Absent
   \<and> bedrooms (view_property_data no_house_size_request) \<noteq> 0
   \<and> \<not> isl (map_input stub_predictor (view_property_data no_house_size_request))
   \<and> projr (map_input stub_predictor (view_property_data no_house_size_request)) ''House size''
       = Some NoneV
   \<and> engineer_features stub_predictor
         (projr (map_input stub_predictor (view_property_data no_house_size_request)))
       = Inl TypeError
   \<and> isl (predict_with_confidence stub_predictor (view_property_data no_house_size_request))"
proof -
  have a: "house_size no_house_size_request = Absent"
    by (simp add: request_defs)
  have b: "bedrooms (view_property_data no_house_size_request) \<noteq> 0"
    by (simp add: request_defs view_property_data_def)
  note v = null_size_raises [of null_house_size_request stub_predictor no_house_size_request]
  have n: "house_size null_house_size_request = Null"
    by (simp add: request_defs)
  from v n a have h: "house_size (view_property_data no_house_size_request) = Null"
    by blast
  have g: "\<not> isl (map_input stub_predictor (view_property_data no_house_size_request))"
    by (simp add: map_input_def getitem_def stub_defs)
  then have g': "map_input stub_predictor (view_property_data no_house_size_request)
      = Inr (projr (map_input stub_predictor (view_property_data no_house_size_request)))"
    by (cases "map_input stub_predictor (view_property_data no_house_size_request)") simp_all
  from null_size_raises [of "view_property_data no_house_size_request" stub_predictor
      no_house_size_request, OF disjI1 [OF h]] g' h a b g
  show ?thesis by auto
qed

end
